theory Spec2Isabelle
  imports Complex_Main
begin

section \<open>The desktop shell of MominOS: data model\<close>

text \<open>
  The development embeds the window manager of \<^verbatim>\<open>src/app/components/desktop.tsx\<close> and the
  submit handler of \<^verbatim>\<open>src/app/components/login-screen.tsx\<close>.

  Numbers. A TypeScript \<^verbatim>\<open>number\<close> is modelled as a \<^typ>\<open>real\<close>: the handlers only add,
  subtract, halve and compare coordinates, so \<^verbatim>\<open>Math.max\<close> and \<^verbatim>\<open>Math.min\<close> are \<^const>\<open>max\<close> and
  \<^const>\<open>min\<close>, and \<^verbatim>\<open>===\<close> on numbers is equality. Rounding, infinities and NaN are outside the model.

  Opaque references (\<^verbatim>\<open>icon: any\<close>, \<^verbatim>\<open>component: any\<close>) are modelled by the name of the
  referenced component.
\<close>

record User =
  user_id :: string
  user_name :: string
  username :: string
  avatar :: "string option"

record App =
  app_id :: string
  app_name :: string
  app_icon :: string
  app_color :: string
  app_component :: string

datatype Snapped =
  SnappedLeft | SnappedRight | SnappedTopLeft | SnappedTopRight | SnappedBottomLeft | SnappedBottomRight

text \<open>
  The interface \<^verbatim>\<open>Window\<close>. The field \<^verbatim>\<open>id\<close> is \<open>win_id\<close> here (\<^const>\<open>id\<close> is HOL's identity).
  The optional \<^verbatim>\<open>snapped\<close> is \<open>None\<close> when it is \<^verbatim>\<open>null\<close>; the optional \<^verbatim>\<open>isResizing\<close> is only
  ever tested for truth and is a \<^typ>\<open>bool\<close>.
\<close>

record Window =
  win_id :: string
  title :: string
  icon :: string
  x :: real
  y :: real
  width :: real
  height :: real
  minimized :: bool
  maximized :: bool
  component :: string
  snapped :: "Snapped option"
  isResizing :: bool

datatype DockPosition =
  DockBottom | DockTop | DockLeft | DockRight | DockBottomLeft | DockBottomRight | DockTopLeft | DockTopRight

datatype SnapZone =
  LeftHalf | RightHalf | ZoneTopLeft | ZoneTopRight | ZoneBottomLeft | ZoneBottomRight | Maximize

text \<open>The value of the state variable \<^verbatim>\<open>resizingWindow\<close> when it is not \<^verbatim>\<open>null\<close>.\<close>

record Resizing =
  windowId :: string
  handle :: string
  startX :: real
  startY :: real
  startWidth :: real
  startHeight :: real
  startWindowX :: real
  startWindowY :: real

text \<open>The contents of \<^verbatim>\<open>dragRef.current\<close> when it is not \<^verbatim>\<open>null\<close>.\<close>

record DragRef =
  drag_windowId :: string
  drag_startX :: real
  drag_startY :: real

text \<open>What the handlers read of a pointer event, and of the host's \<^verbatim>\<open>window\<close> object.\<close>

record MouseEvent =
  clientX :: real
  clientY :: real

record Viewport =
  innerWidth :: real
  innerHeight :: real

text \<open>
  The state of the component \<^verbatim>\<open>Desktop\<close>: the \<^verbatim>\<open>useState\<close> variables the window manager
  reads or writes, and the ref \<^verbatim>\<open>dragRef\<close>.

  State and closures. A handler is a closure of one render: the names \<^verbatim>\<open>windows\<close>,
  \<^verbatim>\<open>showSnapZones\<close>, \<^verbatim>\<open>resizingWindow\<close>, ... inside it are constants holding the values of that
  render. A setter call \<^verbatim>\<open>setWindows(v)\<close> does not change them: it queues \<open>v\<close> as the next value
  of the variable, and when a handler calls the same setter twice with plain values, the value
  queued last is the one committed. A handler is therefore a function of the state it reads
  (its snapshot) that returns the state committed after it. A function that other handlers call,
  or that runs as a listener installed by an earlier render, takes both: the snapshot its closure
  reads, and the pending state that its setter calls update. A ref is an ordinary mutable cell,
  read and written in place.
\<close>

record Desktop =
  searchOpen :: bool
  windows :: "Window list"
  activeWindow :: "string option"
  mousePosition :: "real \<times> real"
  dockPosition :: DockPosition
  isDraggingDock :: bool
  showSnapZones :: bool
  draggingWindow :: "string option"
  resizingWindow :: "Resizing option"
  dragRef :: "DragRef option"

text \<open>The state of the first render: the initial values given to \<^verbatim>\<open>useState\<close> and \<^verbatim>\<open>useRef\<close>.\<close>

definition initialDesktop :: Desktop where
  "initialDesktop =
     \<lparr>searchOpen = False, windows = [], activeWindow = None, mousePosition = (0, 0),
      dockPosition = DockBottom, isDraggingDock = False, showSnapZones = False,
      draggingWindow = None, resizingWindow = None, dragRef = None\<rparr>"

text \<open>The application catalogue \<^verbatim>\<open>desktopApps\<close>.\<close>

definition desktopApps :: "App list" where
  "desktopApps =
     [\<lparr>app_id = ''terminal'', app_name = ''Terminal'', app_icon = ''Terminal'',
        app_color = ''from-green-500 to-green-600'', app_component = ''TerminalApp''\<rparr>,
      \<lparr>app_id = ''files'', app_name = ''Files'', app_icon = ''FolderOpen'',
        app_color = ''from-blue-500 to-blue-600'', app_component = ''FilesApp''\<rparr>,
      \<lparr>app_id = ''settings'', app_name = ''Settings'', app_icon = ''Settings'',
        app_color = ''from-gray-500 to-gray-600'', app_component = ''SettingsApp''\<rparr>,
      \<lparr>app_id = ''browser'', app_name = ''Browser'', app_icon = ''Chrome'',
        app_color = ''from-orange-500 to-orange-600'', app_component = ''BrowserApp''\<rparr>,
      \<lparr>app_id = ''code'', app_name = ''Code'', app_icon = ''Code'',
        app_color = ''from-purple-500 to-purple-600'', app_component = ''CodeApp''\<rparr>,
      \<lparr>app_id = ''music'', app_name = ''Music'', app_icon = ''Music'',
        app_color = ''from-pink-500 to-pink-600'', app_component = ''MusicApp''\<rparr>,
      \<lparr>app_id = ''photos'', app_name = ''Photos'', app_icon = ''ImageIcon'',
        app_color = ''from-yellow-500 to-yellow-600'', app_component = ''PhotosApp''\<rparr>,
      \<lparr>app_id = ''calculator'', app_name = ''Calculator'', app_icon = ''Calculator'',
        app_color = ''from-indigo-500 to-indigo-600'', app_component = ''CalculatorApp''\<rparr>,
      \<lparr>app_id = ''calendar'', app_name = ''Calendar'', app_icon = ''Calendar'',
        app_color = ''from-red-500 to-red-600'', app_component = ''CalendarApp''\<rparr>,
      \<lparr>app_id = ''mail'', app_name = ''Mail'', app_icon = ''Mail'',
        app_color = ''from-teal-500 to-teal-600'', app_component = ''MailApp''\<rparr>]"

section \<open>The dock\<close>

text \<open>
  \<^verbatim>\<open>handleDockDrag\<close> (the dock's \<^verbatim>\<open>onDragEnd\<close>): the release point \<^verbatim>\<open>info.point\<close> is classified
  against the viewport and the result is committed as the dock position.
\<close>

definition handleDockDrag :: "Viewport \<Rightarrow> real \<times> real \<Rightarrow> Desktop \<Rightarrow> Desktop" where
  "handleDockDrag vp point s =
     (let px = fst point; py = snd point;
          windowWidth = innerWidth vp;
          windowHeight = innerHeight vp;
          margin = 100;
          isNearLeft = px < margin;
          isNearRight = px > windowWidth - margin;
          isNearTop = py < margin + 64;
          isNearBottom = py > windowHeight - margin;
          newPosition =
            (if isNearLeft \<and> isNearTop then DockTopLeft
             else if isNearRight \<and> isNearTop then DockTopRight
             else if isNearLeft \<and> isNearBottom then DockBottomLeft
             else if isNearRight \<and> isNearBottom then DockBottomRight
             else if isNearLeft then DockLeft
             else if isNearRight then DockRight
             else if isNearTop then DockTop
             else DockBottom)
      in s\<lparr>dockPosition := newPosition\<rparr>)"

text \<open>The dock's \<^verbatim>\<open>onDragStart\<close>.\<close>

definition dockDragStart :: "Desktop \<Rightarrow> Desktop" where
  "dockDragStart s = s\<lparr>isDraggingDock := True\<rparr>"

section \<open>Resizing a window\<close>

text \<open>
  The \<^verbatim>\<open>switch (handle)\<close> of \<^verbatim>\<open>handleWindowResize\<close>: from the window as the closure sees it, the
  snapshot taken at the start of the resize and the pointer delta, the values of
  \<^verbatim>\<open>(newX, newY, newWidth, newHeight)\<close> before the final clamp. A handle other than the eight
  names reaches no case and leaves the four values as initialised from the window.
\<close>

definition resizeSwitch :: "Resizing \<Rightarrow> real \<Rightarrow> real \<Rightarrow> Window \<Rightarrow> real \<times> real \<times> real \<times> real" where
  "resizeSwitch rw deltaX deltaY w =
     (let pinX = (\<lambda>newWidth. if newWidth = 300 then startWindowX rw + startWidth rw - 300
                              else startWindowX rw + deltaX);
          pinY = (\<lambda>newHeight. if newHeight = 200 then startWindowY rw + startHeight rw - 200
                               else startWindowY rw + deltaY)
      in if handle rw = ''right'' then
           (x w, y w, max 300 (startWidth rw + deltaX), height w)
         else if handle rw = ''left'' then
           (let newWidth = max 300 (startWidth rw - deltaX)
            in (pinX newWidth, y w, newWidth, height w))
         else if handle rw = ''bottom'' then
           (x w, y w, width w, max 200 (startHeight rw + deltaY))
         else if handle rw = ''top'' then
           (let newHeight = max 200 (startHeight rw - deltaY)
            in (x w, pinY newHeight, width w, newHeight))
         else if handle rw = ''bottom-right'' then
           (x w, y w, max 300 (startWidth rw + deltaX), max 200 (startHeight rw + deltaY))
         else if handle rw = ''bottom-left'' then
           (let newWidth = max 300 (startWidth rw - deltaX);
                newHeight = max 200 (startHeight rw + deltaY)
            in (pinX newWidth, y w, newWidth, newHeight))
         else if handle rw = ''top-right'' then
           (let newWidth = max 300 (startWidth rw + deltaX);
                newHeight = max 200 (startHeight rw - deltaY)
            in (x w, pinY newHeight, newWidth, newHeight))
         else if handle rw = ''top-left'' then
           (let newWidth = max 300 (startWidth rw - deltaX);
                newHeight = max 200 (startHeight rw - deltaY)
            in (pinX newWidth, pinY newHeight, newWidth, newHeight))
         else (x w, y w, width w, height w))"

text \<open>The function mapped over \<^verbatim>\<open>windows\<close> by \<^verbatim>\<open>handleWindowResize\<close>.\<close>

definition resizeOne :: "Viewport \<Rightarrow> Resizing \<Rightarrow> MouseEvent \<Rightarrow> Window \<Rightarrow> Window" where
  "resizeOne vp rw e w =
     (if win_id w \<noteq> windowId rw then w
      else
        (let deltaX = clientX e - startX rw;
             deltaY = clientY e - startY rw
         in case resizeSwitch rw deltaX deltaY w of
              (newX, newY, newWidth, newHeight) \<Rightarrow>
                w\<lparr>x := max 0 (min newX (innerWidth vp - newWidth)),
                  y := max 40 (min newY (innerHeight vp - newHeight)),
                  width := newWidth,
                  height := newHeight,
                  isResizing := True\<rparr>))"

text \<open>
  \<^verbatim>\<open>handleWindowResize\<close>. It runs inside the \<^verbatim>\<open>mousemove\<close> listener of the host window, which an
  effect with the dependency list \<^verbatim>\<open>[resizingWindow]\<close> installs: \<open>snap\<close> is the render that
  installed the listener, \<open>pending\<close> the state the call updates.
\<close>

definition handleWindowResize :: "Viewport \<Rightarrow> MouseEvent \<Rightarrow> Desktop \<Rightarrow> Desktop \<Rightarrow> Desktop" where
  "handleWindowResize vp e snap pending =
     (case resizingWindow snap of
        None \<Rightarrow> pending
      | Some rw \<Rightarrow> pending\<lparr>windows := map (resizeOne vp rw e) (windows snap)\<rparr>)"

text \<open>The two listeners of that effect, \<^verbatim>\<open>handleMouseMove\<close> and \<^verbatim>\<open>handleMouseUp\<close>.\<close>

definition handleMouseMove :: "Viewport \<Rightarrow> MouseEvent \<Rightarrow> Desktop \<Rightarrow> Desktop \<Rightarrow> Desktop" where
  "handleMouseMove vp e snap pending =
     (let p = pending\<lparr>mousePosition := (clientX e, clientY e)\<rparr>
      in if resizingWindow snap \<noteq> None then handleWindowResize vp e snap p else p)"

definition handleMouseUp :: "Desktop \<Rightarrow> Desktop" where
  "handleMouseUp pending = pending\<lparr>resizingWindow := None\<rparr>"

text \<open>\<^verbatim>\<open>startWindowResize\<close>, the \<^verbatim>\<open>onMouseDown\<close> of the eight resize handles of a window.\<close>

definition startWindowResize :: "MouseEvent \<Rightarrow> string \<Rightarrow> string \<Rightarrow> Desktop \<Rightarrow> Desktop" where
  "startWindowResize e wid hdl s =
     (case find (\<lambda>w. win_id w = wid) (windows s) of
        None \<Rightarrow> s
      | Some window \<Rightarrow>
          s\<lparr>resizingWindow :=
               Some \<lparr>windowId = wid, handle = hdl, startX = clientX e, startY = clientY e,
                     startWidth = width window, startHeight = height window,
                     startWindowX = x window, startWindowY = y window\<rparr>,
            activeWindow := Some wid\<rparr>)"

text \<open>
  The pointer moves of one resize gesture. The listener that handles them was installed by the
  render that followed \<^verbatim>\<open>startWindowResize\<close>; the renders caused by the moves leave
  \<^verbatim>\<open>resizingWindow\<close> as it is, so the effect does not run again and every move is handled by
  that same listener, over the snapshot \<open>snap\<close>.
\<close>

definition resizeMoves :: "Viewport \<Rightarrow> Desktop \<Rightarrow> MouseEvent list \<Rightarrow> Desktop \<Rightarrow> Desktop" where
  "resizeMoves vp snap es s = foldl (\<lambda>pending e. handleMouseMove vp e snap pending) s es"

text \<open>
  A resize gesture up to its last pointer move: pointer down on a resize handle of the window
  \<open>wid\<close>, then the moves. The pointer down stops at the handle (\<^verbatim>\<open>stopPropagation\<close>), so no drag
  starts, and \<^verbatim>\<open>handleWindowMouseMove\<close>, which the same moves reach, returns at once.
\<close>

definition resizeGesture ::
  "Viewport \<Rightarrow> MouseEvent \<Rightarrow> string \<Rightarrow> string \<Rightarrow> MouseEvent list \<Rightarrow> Desktop \<Rightarrow> Desktop" where
  "resizeGesture vp down wid hdl moves s =
     (let s1 = startWindowResize down wid hdl s in resizeMoves vp s1 moves s1)"

section \<open>Opening, closing, minimising and maximising\<close>

text \<open>The decimal numeral of \<^verbatim>\<open>Date.now()\<close> in the template \<^verbatim>\<open>`window-${Date.now()}`\<close>.\<close>

fun decimal :: "nat \<Rightarrow> string" where
  "decimal n =
     (if n < 10 then [char_of (48 + n)]
      else decimal (n div 10) @ [char_of (48 + n mod 10)])"

declare decimal.simps [simp del]

text \<open>
  \<^verbatim>\<open>openApp\<close>. \<open>now\<close> is the value of \<^verbatim>\<open>Date.now()\<close>, \<open>r1\<close> and \<open>r2\<close> are the two values of
  \<^verbatim>\<open>Math.random()\<close>. The branch for an existing window returns before \<^verbatim>\<open>setSearchOpen(false)\<close>.
\<close>

definition openApp :: "nat \<Rightarrow> real \<Rightarrow> real \<Rightarrow> App \<Rightarrow> Desktop \<Rightarrow> Desktop" where
  "openApp now r1 r2 app s =
     (case find (\<lambda>w. title w = app_name app) (windows s) of
        Some existingWindow \<Rightarrow>
          (let p = (if minimized existingWindow
                    then s\<lparr>windows :=
                            map (\<lambda>w. if win_id w = win_id existingWindow
                                      then w\<lparr>minimized := False\<rparr> else w) (windows s)\<rparr>
                    else s)
           in p\<lparr>activeWindow := Some (win_id existingWindow)\<rparr>)
      | None \<Rightarrow>
          (let newWindow =
                 \<lparr>win_id = ''window-'' @ decimal now, title = app_name app, icon = app_icon app,
                  x = r1 * 200 + 100, y = r2 * 200 + 100, width = 900, height = 700,
                  minimized = False, maximized = False, component = app_component app,
                  snapped = None, isResizing = False\<rparr>
           in s\<lparr>windows := windows s @ [newWindow],
                activeWindow := Some (win_id newWindow),
                searchOpen := False\<rparr>))"

definition closeWindow :: "string \<Rightarrow> Desktop \<Rightarrow> Desktop" where
  "closeWindow wid s =
     (let p = s\<lparr>windows := filter (\<lambda>w. win_id w \<noteq> wid) (windows s)\<rparr>
      in if activeWindow s = Some wid then p\<lparr>activeWindow := None\<rparr> else p)"

definition minimizeWindow :: "string \<Rightarrow> Desktop \<Rightarrow> Desktop" where
  "minimizeWindow wid s =
     s\<lparr>windows := map (\<lambda>w. if win_id w = wid then w\<lparr>minimized := True\<rparr> else w) (windows s)\<rparr>"

definition maximizeWindow :: "Viewport \<Rightarrow> string \<Rightarrow> Desktop \<Rightarrow> Desktop" where
  "maximizeWindow vp wid s =
     s\<lparr>windows :=
         map (\<lambda>w. if win_id w = wid
                   then w\<lparr>maximized := \<not> maximized w,
                          x := (if maximized w then x w else 0),
                          y := (if maximized w then y w else 40),
                          width := (if maximized w then width w else innerWidth vp),
                          height := (if maximized w then height w else innerHeight vp - 40),
                          snapped := None\<rparr>
                   else w)
             (windows s)\<rparr>"

text \<open>
  The click on the dock item of a running application that is not one of the dock's fixed
  entries; \<open>window\<close> is the element of \<^verbatim>\<open>windows\<close> the item was rendered for.
\<close>

definition dockWindowClick :: "Window \<Rightarrow> Desktop \<Rightarrow> Desktop" where
  "dockWindowClick window s =
     (let p = (if minimized window
               then s\<lparr>windows :=
                       map (\<lambda>w. if win_id w = win_id window
                                 then w\<lparr>minimized := False\<rparr> else w) (windows s)\<rparr>
               else s)
      in p\<lparr>activeWindow := Some (win_id window)\<rparr>)"

text \<open>The launcher: the dock's launcher item opens it, a click on an entry of the grid calls
  \<^verbatim>\<open>openApp\<close>, a click outside the panel closes it.\<close>

definition launcherOpen :: "Desktop \<Rightarrow> Desktop" where
  "launcherOpen s = s\<lparr>searchOpen := True\<rparr>"

definition launcherSelect :: "nat \<Rightarrow> real \<Rightarrow> real \<Rightarrow> App \<Rightarrow> Desktop \<Rightarrow> Desktop" where
  "launcherSelect now r1 r2 app s = openApp now r1 r2 app s"

definition launcherDismiss :: "Desktop \<Rightarrow> Desktop" where
  "launcherDismiss s = s\<lparr>searchOpen := False\<rparr>"

section \<open>Snapping and dragging\<close>

text \<open>The \<^verbatim>\<open>switch (zone)\<close> of \<^verbatim>\<open>snapWindow\<close>: \<^verbatim>\<open>(newX, newY, newWidth, newHeight, snapType)\<close>.\<close>

definition snapTarget :: "Viewport \<Rightarrow> SnapZone \<Rightarrow> real \<times> real \<times> real \<times> real \<times> Snapped option" where
  "snapTarget vp zone =
     (let screenWidth = innerWidth vp;
          screenHeight = innerHeight vp - 40
      in case zone of
           LeftHalf \<Rightarrow> (0, 40, screenWidth / 2, screenHeight, Some SnappedLeft)
         | RightHalf \<Rightarrow> (screenWidth / 2, 40, screenWidth / 2, screenHeight, Some SnappedRight)
         | ZoneTopLeft \<Rightarrow> (0, 40, screenWidth / 2, screenHeight / 2, Some SnappedTopLeft)
         | ZoneTopRight \<Rightarrow>
             (screenWidth / 2, 40, screenWidth / 2, screenHeight / 2, Some SnappedTopRight)
         | ZoneBottomLeft \<Rightarrow>
             (0, 40 + screenHeight / 2, screenWidth / 2, screenHeight / 2, Some SnappedBottomLeft)
         | ZoneBottomRight \<Rightarrow>
             (screenWidth / 2, 40 + screenHeight / 2, screenWidth / 2, screenHeight / 2,
              Some SnappedBottomRight)
         | Maximize \<Rightarrow> (0, 40, screenWidth, screenHeight, None))"

text \<open>
  \<^verbatim>\<open>snapWindow\<close>. It is called from \<^verbatim>\<open>handleWindowMouseUp\<close> and from the click handlers of the
  snap-zone overlays; it reads \<^verbatim>\<open>windows\<close> of its render (\<open>snap\<close>) and queues three updates
  on \<open>pending\<close>.
\<close>

definition snapWindow :: "Viewport \<Rightarrow> string \<Rightarrow> SnapZone \<Rightarrow> Desktop \<Rightarrow> Desktop \<Rightarrow> Desktop" where
  "snapWindow vp wid zone snap pending =
     (case snapTarget vp zone of
        (newX, newY, newWidth, newHeight, snapType) \<Rightarrow>
          pending\<lparr>windows :=
                    map (\<lambda>w. if win_id w = wid
                              then w\<lparr>x := newX, y := newY, width := newWidth, height := newHeight,
                                     maximized := (zone = Maximize), snapped := snapType\<rparr>
                              else w)
                        (windows snap),
                  showSnapZones := False,
                  draggingWindow := None\<rparr>)"

text \<open>
  \<^verbatim>\<open>handleWindowMouseDown\<close>. The two flags say whether the event's target lies inside an element
  of class \<^verbatim>\<open>window-controls\<close>, or of class \<^verbatim>\<open>resize-handle\<close>.
\<close>

definition handleWindowMouseDown :: "bool \<Rightarrow> bool \<Rightarrow> MouseEvent \<Rightarrow> string \<Rightarrow> Desktop \<Rightarrow> Desktop" where
  "handleWindowMouseDown inWindowControls inResizeHandle e wid s =
     (if inWindowControls then s
      else if inResizeHandle then s
      else s\<lparr>dragRef := Some \<lparr>drag_windowId = wid, drag_startX = clientX e, drag_startY = clientY e\<rparr>,
             activeWindow := Some wid,
             draggingWindow := Some wid\<rparr>)"

definition handleWindowMouseMove :: "Viewport \<Rightarrow> MouseEvent \<Rightarrow> Desktop \<Rightarrow> Desktop" where
  "handleWindowMouseMove vp e s =
     (case dragRef s of
        None \<Rightarrow> s
      | Some d \<Rightarrow>
          (let deltaX = clientX e - drag_startX d;
               deltaY = clientY e - drag_startY d;
               margin = 50;
               showZones = (clientY e < margin \<or> clientX e < margin \<or>
                            clientX e > innerWidth vp - margin \<or>
                            clientY e > innerHeight vp - margin)
           in s\<lparr>showSnapZones := showZones,
                windows :=
                  map (\<lambda>w. if win_id w = drag_windowId d \<and> \<not> maximized w
                            then w\<lparr>x := max 0 (x w + deltaX),
                                   y := max 40 (y w + deltaY),
                                   snapped := None\<rparr>
                            else w)
                      (windows s),
                dragRef := Some (d\<lparr>drag_startX := clientX e, drag_startY := clientY e\<rparr>)\<rparr>))"

text \<open>
  The zone that \<^verbatim>\<open>handleWindowMouseUp\<close> passes to \<^verbatim>\<open>snapWindow\<close> for a release point, or
  \<open>None\<close> where its chain of tests calls nothing.
\<close>

definition releaseZone :: "Viewport \<Rightarrow> MouseEvent \<Rightarrow> SnapZone option" where
  "releaseZone vp e =
     (let px = clientX e; py = clientY e; margin = 50
      in if py < margin then
           (if px < innerWidth vp / 2 then Some ZoneTopLeft else Some ZoneTopRight)
         else if py > innerHeight vp - margin then
           (if px < innerWidth vp / 2 then Some ZoneBottomLeft else Some ZoneBottomRight)
         else if px < margin then Some LeftHalf
         else if px > innerWidth vp - margin then Some RightHalf
         else None)"

text \<open>
  \<^verbatim>\<open>handleWindowMouseUp\<close>. When a drag is armed and the snap zones are shown, the handler calls
  \<^verbatim>\<open>snapWindow\<close>, which queues \<^verbatim>\<open>setWindows(windows.map(...))\<close> with the snapped list. The handler
  then goes on and calls \<^verbatim>\<open>setWindows(windows.map((w) => ({ ...w, isResizing: false })))\<close> itself.
  In both calls \<^verbatim>\<open>windows\<close> is the same constant of the handler's render, so the second list
  is computed from the list before the snap; it is the value queued last, and the one committed.
\<close>

definition handleWindowMouseUp :: "Viewport \<Rightarrow> MouseEvent \<Rightarrow> Desktop \<Rightarrow> Desktop" where
  "handleWindowMouseUp vp e s =
     (let p = (case dragRef s of
                 None \<Rightarrow> s
               | Some d \<Rightarrow>
                   if showSnapZones s then
                     (case releaseZone vp e of
                        None \<Rightarrow> s
                      | Some zone \<Rightarrow> snapWindow vp (drag_windowId d) zone s s)
                   else s)
      in p\<lparr>dragRef := None,
           showSnapZones := False,
           draggingWindow := None,
           windows := map (\<lambda>w. w\<lparr>isResizing := False\<rparr>) (windows s)\<rparr>)"

text \<open>The pointer moves of a drag, each handled by the handler of the render before it.\<close>

definition dragMoves :: "Viewport \<Rightarrow> MouseEvent list \<Rightarrow> Desktop \<Rightarrow> Desktop" where
  "dragMoves vp es s = foldl (\<lambda>s' e. handleWindowMouseMove vp e s') s es"

text \<open>
  A whole drag gesture: pointer down on a window, pointer moves, pointer up. The listeners of
  the host window see the same moves and the same release; outside a resize their closure holds
  \<^verbatim>\<open>resizingWindow = null\<close>, so \<^verbatim>\<open>handleMouseMove\<close> only records the pointer position and
  \<^verbatim>\<open>handleMouseUp\<close> sets \<^verbatim>\<open>null\<close> again, and they are left out of the gesture.
\<close>

definition dragGesture ::
  "Viewport \<Rightarrow> bool \<Rightarrow> bool \<Rightarrow> MouseEvent \<Rightarrow> string \<Rightarrow> MouseEvent list \<Rightarrow> MouseEvent \<Rightarrow> Desktop \<Rightarrow> Desktop" where
  "dragGesture vp inWindowControls inResizeHandle down wid moves up s =
     handleWindowMouseUp vp up
       (dragMoves vp moves (handleWindowMouseDown inWindowControls inResizeHandle down wid s))"

section \<open>The states the shell reaches\<close>

text \<open>
  The states of \<^verbatim>\<open>Desktop\<close> that its handlers produce from the first render. Every handler that
  writes a modelled state variable has a rule. \<^verbatim>\<open>Math.random()\<close> returns a value in \<open>[0, 1)\<close>.
  Where a function reads the snapshot of an earlier render (the listener of the host window, the
  click handlers of the snap-zone overlays), the snapshot is any reachable state. The target of
  a snap lies below the top bar only on a viewport that is at least as high as the top bar, so
  the snap is taken on such viewports; the other handlers run on any viewport.
\<close>

definition usableViewport :: "Viewport \<Rightarrow> bool" where
  "usableViewport vp = (0 \<le> innerWidth vp \<and> 40 \<le> innerHeight vp)"

inductive reachable :: "Desktop \<Rightarrow> bool" where
  first_render: "reachable initialDesktop"
| dock_drag_start: "reachable s \<Longrightarrow> reachable (dockDragStart s)"
| dock_drag_end: "reachable s \<Longrightarrow> reachable (handleDockDrag vp point s)"
| open_app:
    "reachable s \<Longrightarrow> 0 \<le> r1 \<Longrightarrow> r1 < 1 \<Longrightarrow> 0 \<le> r2 \<Longrightarrow> r2 < 1 \<Longrightarrow>
     reachable (openApp now r1 r2 app s)"
| close_window: "reachable s \<Longrightarrow> reachable (closeWindow wid s)"
| minimize_window: "reachable s \<Longrightarrow> reachable (minimizeWindow wid s)"
| maximize_window: "reachable s \<Longrightarrow> reachable (maximizeWindow vp wid s)"
| dock_window_click:
    "reachable s \<Longrightarrow> window \<in> set (windows s) \<Longrightarrow> reachable (dockWindowClick window s)"
| launcher_open: "reachable s \<Longrightarrow> reachable (launcherOpen s)"
| launcher_dismiss: "reachable s \<Longrightarrow> reachable (launcherDismiss s)"
| resize_start: "reachable s \<Longrightarrow> reachable (startWindowResize e wid hdl s)"
| listener_move:
    "reachable snap \<Longrightarrow> reachable s \<Longrightarrow> reachable (handleMouseMove vp e snap s)"
| listener_up: "reachable s \<Longrightarrow> reachable (handleMouseUp s)"
| window_mouse_down:
    "reachable s \<Longrightarrow> reachable (handleWindowMouseDown inWindowControls inResizeHandle e wid s)"
| window_mouse_move: "reachable s \<Longrightarrow> reachable (handleWindowMouseMove vp e s)"
| window_mouse_up: "reachable s \<Longrightarrow> reachable (handleWindowMouseUp vp e s)"
| snap_zone_click:
    "reachable snap \<Longrightarrow> reachable s \<Longrightarrow> usableViewport vp \<Longrightarrow>
     reachable (snapWindow vp wid zone snap s)"

section \<open>The session gate\<close>

text \<open>
  The state of \<^verbatim>\<open>LoginScreen\<close> that \<^verbatim>\<open>handleLogin\<close> reads, and the handler: its result is the
  list of the calls of \<^verbatim>\<open>onLogin\<close> it makes, each with its argument. A string is truthy when it
  is not empty, \<^verbatim>\<open>selectedUser\<close> when it is not \<^verbatim>\<open>null\<close>.
\<close>

record LoginScreen =
  password :: string
  showPassword :: bool
  selectedUser :: "User option"

definition users :: "User list" where
  "users =
     [\<lparr>user_id = ''1'', user_name = ''Administrator'', username = ''admin'',
        avatar = Some ''/placeholder.svg?height=80&width=80''\<rparr>,
      \<lparr>user_id = ''2'', user_name = ''Guest User'', username = ''guest'', avatar = None\<rparr>]"

definition handleLogin :: "LoginScreen \<Rightarrow> User list" where
  "handleLogin st =
     (case selectedUser st of
        None \<Rightarrow> []
      | Some u \<Rightarrow> if password st \<noteq> [] then [u] else [])"

section \<open>Definitions that follow the specification's words\<close>

text \<open>
  The dock anchor as the specification describes it: margin tests of 100 pixels, the corner
  tests before the single-edge tests. The height of the top band is a parameter, so that the
  band of the specification (100) can be compared with the one of the code.
\<close>

definition dockAnchorByMargins :: "real \<Rightarrow> real \<Rightarrow> real \<Rightarrow> real \<Rightarrow> real \<Rightarrow> DockPosition" where
  "dockAnchorByMargins topBand px py W H =
     (let nearLeft = px < 100; nearRight = px > W - 100;
          nearTop = py < topBand; nearBottom = py > H - 100
      in if nearLeft \<and> nearTop then DockTopLeft
         else if nearRight \<and> nearTop then DockTopRight
         else if nearLeft \<and> nearBottom then DockBottomLeft
         else if nearRight \<and> nearBottom then DockBottomRight
         else if nearLeft then DockLeft
         else if nearRight then DockRight
         else if nearTop then DockTop
         else DockBottom)"

section \<open>Example states\<close>

text \<open>
  A full-HD viewport, a window of the default size, and a desktop with two windows, the second
  one maximized and minimized; the instances below are stated on them.
\<close>

definition exampleViewport :: Viewport where
  "exampleViewport = \<lparr>innerWidth = 1920, innerHeight = 1080\<rparr>"

definition exampleWindow :: "string \<Rightarrow> string \<Rightarrow> real \<Rightarrow> real \<Rightarrow> Window" where
  "exampleWindow wid t px py =
     \<lparr>win_id = wid, title = t, icon = t, x = px, y = py, width = 900, height = 700,
      minimized = False, maximized = False, component = t @ ''App'', snapped = None,
      isResizing = False\<rparr>"

definition exampleDesktop :: Desktop where
  "exampleDesktop =
     initialDesktop
       \<lparr>windows := [exampleWindow ''window-1'' ''Terminal'' 100 100,
                    (exampleWindow ''window-2'' ''Files'' 0 40)
                      \<lparr>width := 1920, height := 1040, maximized := True, minimized := True\<rparr>]\<rparr>"

section \<open>The dock anchor\<close>

text \<open>
  Claim C4, as amended. For every release point \<open>(px, py)\<close> and viewport, \<^verbatim>\<open>handleDockDrag\<close>
  commits the anchor selected by the margin tests in priority order (corners first, then left,
  right, top, otherwise bottom), where near-left is \<open>px < 100\<close>, near-right
  \<open>px > W - 100\<close>, near-bottom \<open>py > H - 100\<close> and near-top is \<open>py < 164\<close> (the margin plus 64);
  nothing else of the state changes. On a 1920 by 1080 viewport a release at \<open>(5, 5)\<close> gives
  top-left and a release at \<open>(960, 1070)\<close> gives bottom.
\<close>

theorem dock_anchor_top_band_164:
  "handleDockDrag vp (px, py) s =
     s\<lparr>dockPosition := dockAnchorByMargins 164 px py (innerWidth vp) (innerHeight vp)\<rparr>
   \<and> dockPosition (handleDockDrag \<lparr>innerWidth = 1920, innerHeight = 1080\<rparr> (5, 5) s) = DockTopLeft
   \<and> dockPosition (handleDockDrag \<lparr>innerWidth = 1920, innerHeight = 1080\<rparr> (960, 1070) s) = DockBottom"
  by (simp add: handleDockDrag_def dockAnchorByMargins_def Let_def)

text \<open>
  With the top band of 100 pixels that claim C4 states, a release at \<open>(5, 120)\<close> on a 1920 by
  1080 viewport is near the left edge only, and the anchor would be left; the code commits
  top-left.
\<close>

theorem dock_anchor_100_counterexample:
  "dockPosition (handleDockDrag \<lparr>innerWidth = 1920, innerHeight = 1080\<rparr> (5, 120) initialDesktop)
     = DockTopLeft
   \<and> dockAnchorByMargins 100 5 120 1920 1080 = DockLeft"
  by (simp add: handleDockDrag_def dockAnchorByMargins_def Let_def)

section \<open>The session gate's submit handler\<close>

text \<open>
  Claim C10. Submitting the form calls \<^verbatim>\<open>onLogin\<close> exactly when an identity is selected and the
  credential is not empty, once, with the selected identity; two submissions with the same
  selection and any two non-empty credentials make the same call.
\<close>

theorem login_ignores_credential_content:
  "handleLogin st =
     (if selectedUser st \<noteq> None \<and> password st \<noteq> [] then [the (selectedUser st)] else [])
   \<and> (password st \<noteq> [] \<and> password st' \<noteq> [] \<and> selectedUser st' = selectedUser st
        \<longrightarrow> handleLogin st' = handleLogin st)"
  by (auto simp add: handleLogin_def split: option.splits)

theorem login_ignores_credential_content_witness:
  "handleLogin \<lparr>password = ''hunter2'', showPassword = False, selectedUser = Some (hd users)\<rparr>
     = handleLogin \<lparr>password = ''x'', showPassword = True, selectedUser = Some (hd users)\<rparr>
   \<and> handleLogin \<lparr>password = ''x'', showPassword = True, selectedUser = Some (hd users)\<rparr> = [hd users]"
  using login_ignores_credential_content
    [of "\<lparr>password = ''x'', showPassword = True, selectedUser = Some (hd users)\<rparr>"
        "\<lparr>password = ''hunter2'', showPassword = False, selectedUser = Some (hd users)\<rparr>"]
  by simp

section \<open>Opening an application\<close>

text \<open>The two branches of \<^verbatim>\<open>openApp\<close>, as equations on the state.\<close>

lemma openApp_existing:
  assumes "find (\<lambda>w. title w = app_name app) (windows s) = Some ew"
  shows "openApp now r1 r2 app s =
           s\<lparr>windows := map (\<lambda>w. if win_id w = win_id ew \<and> minimized ew
                                then w\<lparr>minimized := False\<rparr> else w) (windows s),
             activeWindow := Some (win_id ew)\<rparr>"
proof (cases "minimized ew")
  case True
  with assms show ?thesis by (simp add: openApp_def)
next
  case False
  then have "map (\<lambda>w. if win_id w = win_id ew \<and> minimized ew
                       then w\<lparr>minimized := False\<rparr> else w) (windows s) = windows s"
    by (simp add: map_idI)
  with assms False show ?thesis by (simp add: openApp_def)
qed

lemma openApp_new:
  assumes "find (\<lambda>w. title w = app_name app) (windows s) = None"
  shows "searchOpen (openApp now r1 r2 app s) = False
         \<and> length (windows (openApp now r1 r2 app s)) = Suc (length (windows s))
         \<and> title (last (windows (openApp now r1 r2 app s))) = app_name app"
  using assms by (simp add: openApp_def Let_def)




text \<open>
  The launcher. Selecting an entry is the call \<^verbatim>\<open>openApp(app)\<close> and nothing more: the overlay
  closes in the branch that creates a window, and keeps its state in the branch that finds one.
\<close>

lemma launcherSelect_new_closes_overlay:
  "find (\<lambda>w. title w = app_name app) (windows s) = None \<Longrightarrow>
   searchOpen (launcherSelect now r1 r2 app s) = False"
  by (simp add: launcherSelect_def openApp_new)

lemma launcherSelect_existing_keeps_overlay:
  "find (\<lambda>w. title w = app_name app) (windows s) = Some ew \<Longrightarrow>
   searchOpen (launcherSelect now r1 r2 app s) = searchOpen s"
  by (simp add: launcherSelect_def openApp_existing)

text \<open>
  Claim C9 at its failing input. The launcher is opened and Terminal is selected: a window is
  created and the overlay closes. The launcher is opened again and Terminal is selected again:
  the window is found, and the overlay is still open.
\<close>

theorem launcher_stays_open_for_existing_window:
  "(let terminal = hd desktopApps;
        s1 = launcherSelect 1700000000000 0 0 terminal (launcherOpen initialDesktop);
        s2 = launcherOpen s1;
        s3 = launcherSelect 1700000000001 0 0 terminal s2
    in searchOpen s1 = False \<and> map title (windows s1) = [''Terminal'']
       \<and> searchOpen s2 = True
       \<and> searchOpen s3 = True \<and> map title (windows s3) = [''Terminal''])"
  by (simp add: launcherSelect_def launcherOpen_def initialDesktop_def openApp_def
      desktopApps_def Let_def)

section \<open>Maximising\<close>

lemma maximizeWindow_windows:
  "windows (maximizeWindow vp wid s) =
     map (\<lambda>w. if win_id w = wid
               then w\<lparr>maximized := \<not> maximized w,
                      x := (if maximized w then x w else 0),
                      y := (if maximized w then y w else 40),
                      width := (if maximized w then width w else innerWidth vp),
                      height := (if maximized w then height w else innerHeight vp - 40),
                      snapped := None\<rparr>
               else w) (windows s)"
  by (simp add: maximizeWindow_def)

text \<open>
  Claim C6. \<^verbatim>\<open>maximizeWindow\<close> keeps the list's length and every other state variable. A
  window with the given id has its maximized flag negated and its snap anchor cleared; when
  the flag was set (exit) its x, y, width and height are the stored ones, when it was not
  (enter) they become \<open>(0, 40, innerWidth, innerHeight - 40)\<close>; its other fields are kept. A
  window with another id is unchanged.
\<close>

theorem maximize_toggles_flag_keeps_exit_geometry:
  "length (windows (maximizeWindow vp wid s)) = length (windows s)
   \<and> maximizeWindow vp wid s = s\<lparr>windows := windows (maximizeWindow vp wid s)\<rparr>
   \<and> (\<forall>i < length (windows s).
        let w = windows s ! i; w' = windows (maximizeWindow vp wid s) ! i
        in (win_id w = wid \<longrightarrow>
              maximized w' = (\<not> maximized w) \<and> snapped w' = None
              \<and> (maximized w \<longrightarrow>
                    x w' = x w \<and> y w' = y w \<and> width w' = width w \<and> height w' = height w)
              \<and> (\<not> maximized w \<longrightarrow>
                    x w' = 0 \<and> y w' = 40 \<and> width w' = innerWidth vp
                    \<and> height w' = innerHeight vp - 40)
              \<and> win_id w' = win_id w \<and> title w' = title w \<and> icon w' = icon w
              \<and> minimized w' = minimized w \<and> component w' = component w
              \<and> isResizing w' = isResizing w)
           \<and> (win_id w \<noteq> wid \<longrightarrow> w' = w))"
proof -
  have len: "length (windows (maximizeWindow vp wid s)) = length (windows s)"
    by (simp add: maximizeWindow_windows)
  have frame: "maximizeWindow vp wid s = s\<lparr>windows := windows (maximizeWindow vp wid s)\<rparr>"
    by (simp add: maximizeWindow_def)
  have each: "\<forall>i < length (windows s).
        let w = windows s ! i; w' = windows (maximizeWindow vp wid s) ! i
        in (win_id w = wid \<longrightarrow>
              maximized w' = (\<not> maximized w) \<and> snapped w' = None
              \<and> (maximized w \<longrightarrow>
                    x w' = x w \<and> y w' = y w \<and> width w' = width w \<and> height w' = height w)
              \<and> (\<not> maximized w \<longrightarrow>
                    x w' = 0 \<and> y w' = 40 \<and> width w' = innerWidth vp
                    \<and> height w' = innerHeight vp - 40)
              \<and> win_id w' = win_id w \<and> title w' = title w \<and> icon w' = icon w
              \<and> minimized w' = minimized w \<and> component w' = component w
              \<and> isResizing w' = isResizing w)
           \<and> (win_id w \<noteq> wid \<longrightarrow> w' = w)"
    by (simp add: maximizeWindow_windows Let_def)
  from len frame each show ?thesis by blast
qed

text \<open>
  An instance: the second window of the example desktop is maximized; the operation clears
  the flag and keeps the stored geometry, and the first window is untouched.
\<close>

theorem maximize_toggles_flag_keeps_exit_geometry_witness:
  "(let s' = maximizeWindow exampleViewport ''window-2'' exampleDesktop
    in map maximized (windows s') = [False, False]
       \<and> windows s' ! 0 = exampleWindow ''window-1'' ''Terminal'' 100 100
       \<and> x (windows s' ! 1) = 0 \<and> y (windows s' ! 1) = 40
       \<and> width (windows s' ! 1) = 1920 \<and> height (windows s' ! 1) = 1040
       \<and> snapped (windows s' ! 1) = None)"
  using maximize_toggles_flag_keeps_exit_geometry[of exampleViewport "''window-2''" exampleDesktop]
  by (simp add: Let_def exampleDesktop_def exampleViewport_def exampleWindow_def
      initialDesktop_def maximizeWindow_def)

section \<open>Properties of dragging\<close>

subsection \<open>One pointer move\<close>

lemma handleWindowMouseMove_idle:
  "dragRef s = None \<Longrightarrow> handleWindowMouseMove vp e s = s"
  by (simp add: handleWindowMouseMove_def)

lemma handleWindowMouseMove_windows:
  "dragRef s = Some d \<Longrightarrow>
   windows (handleWindowMouseMove vp e s) =
     map (\<lambda>w. if win_id w = drag_windowId d \<and> \<not> maximized w
               then w\<lparr>x := max 0 (x w + (clientX e - drag_startX d)),
                      y := max 40 (y w + (clientY e - drag_startY d)),
                      snapped := None\<rparr>
               else w) (windows s)"
  by (simp add: handleWindowMouseMove_def Let_def)

lemma handleWindowMouseMove_dragRef:
  "dragRef s = Some d \<Longrightarrow>
   dragRef (handleWindowMouseMove vp e s) =
     Some (d\<lparr>drag_startX := clientX e, drag_startY := clientY e\<rparr>)"
  by (simp add: handleWindowMouseMove_def Let_def)

lemma handleWindowMouseMove_length:
  "length (windows (handleWindowMouseMove vp e s)) = length (windows s)"
  by (cases "dragRef s") (simp_all add: handleWindowMouseMove_idle handleWindowMouseMove_windows)

lemma handleWindowMouseMove_maximized_fixed:
  assumes "i < length (windows s)" "maximized (windows s ! i)"
  shows "windows (handleWindowMouseMove vp e s) ! i = windows s ! i"
proof (cases "dragRef s")
  case None
  then show ?thesis by (simp add: handleWindowMouseMove_idle)
next
  case (Some d)
  with assms show ?thesis by (simp add: handleWindowMouseMove_windows)
qed

lemma handleWindowMouseMove_position_invariant:
  assumes "\<forall>w \<in> set (windows s). 0 \<le> x w \<and> 40 \<le> y w"
  shows "\<forall>w \<in> set (windows (handleWindowMouseMove vp e s)). 0 \<le> x w \<and> 40 \<le> y w"
proof (cases "dragRef s")
  case None
  with assms show ?thesis by (simp add: handleWindowMouseMove_idle)
next
  case (Some d)
  with assms show ?thesis by (auto simp add: handleWindowMouseMove_windows)
qed

subsection \<open>A sequence of pointer moves\<close>

lemma dragMoves_Nil: "dragMoves vp [] s = s"
  by (simp add: dragMoves_def)

lemma dragMoves_snoc:
  "dragMoves vp (es @ [e]) s = handleWindowMouseMove vp e (dragMoves vp es s)"
  by (simp add: dragMoves_def)

lemma dragMoves_length: "length (windows (dragMoves vp es s)) = length (windows s)"
  by (induction es rule: rev_induct)
     (simp_all add: dragMoves_Nil dragMoves_snoc handleWindowMouseMove_length)

text \<open>The moves re-arm the baseline of the drag and never change its target.\<close>

lemma dragMoves_dragRef:
  "dragRef s = Some d \<Longrightarrow>
   \<exists>d'. dragRef (dragMoves vp es s) = Some d' \<and> drag_windowId d' = drag_windowId d"
proof (induction es rule: rev_induct)
  case Nil
  then show ?case by (simp add: dragMoves_Nil)
next
  case (snoc e es)
  then obtain d' where d': "dragRef (dragMoves vp es s) = Some d'"
      "drag_windowId d' = drag_windowId d"
    by blast
  then show ?case
    by (simp add: dragMoves_snoc handleWindowMouseMove_dragRef)
qed

lemma dragMoves_maximized_fixed:
  assumes "i < length (windows s)" "maximized (windows s ! i)"
  shows "windows (dragMoves vp es s) ! i = windows s ! i"
proof (induction es rule: rev_induct)
  case Nil
  show ?case by (simp add: dragMoves_Nil)
next
  case (snoc e es)
  have "i < length (windows (dragMoves vp es s))"
    using assms(1) by (simp add: dragMoves_length)
  moreover have "maximized (windows (dragMoves vp es s) ! i)"
    using snoc assms(2) by simp
  ultimately have "windows (handleWindowMouseMove vp e (dragMoves vp es s)) ! i
                   = windows (dragMoves vp es s) ! i"
    by (rule handleWindowMouseMove_maximized_fixed)
  with snoc show ?case by (simp add: dragMoves_snoc)
qed

lemma dragMoves_position_invariant:
  assumes "\<forall>w \<in> set (windows s). 0 \<le> x w \<and> 40 \<le> y w"
  shows "\<forall>w \<in> set (windows (dragMoves vp es s)). 0 \<le> x w \<and> 40 \<le> y w"
proof (induction es rule: rev_induct)
  case Nil
  from assms show ?case by (simp add: dragMoves_Nil)
next
  case (snoc e es)
  then show ?case
    unfolding dragMoves_snoc by (rule handleWindowMouseMove_position_invariant)
qed

text \<open>
  After at least one move, a window that is the target of the drag and is not maximized was
  written by the last move, hence clamped: neither the id nor the maximized flag changes
  during the moves.
\<close>

lemma dragMoves_dragged_clamped:
  assumes d: "dragRef s = Some d" and ne: "es \<noteq> []"
    and w': "w' \<in> set (windows (dragMoves vp es s))"
    and hit: "win_id w' = drag_windowId d" "\<not> maximized w'"
  shows "0 \<le> x w' \<and> 40 \<le> y w'"
proof -
  from ne obtain es0 e where es: "es = es0 @ [e]"
    by (cases es rule: rev_cases) auto
  obtain d0 where d0: "dragRef (dragMoves vp es0 s) = Some d0"
      "drag_windowId d0 = drag_windowId d"
    using dragMoves_dragRef[OF d] by blast
  from w' obtain w where w: "w \<in> set (windows (dragMoves vp es0 s))"
    and eq: "w' = (if win_id w = drag_windowId d0 \<and> \<not> maximized w
                   then w\<lparr>x := max 0 (x w + (clientX e - drag_startX d0)),
                          y := max 40 (y w + (clientY e - drag_startY d0)),
                          snapped := None\<rparr>
                   else w)"
    unfolding es dragMoves_snoc handleWindowMouseMove_windows[OF d0(1)] by auto
  show ?thesis
  proof (cases "win_id w = drag_windowId d0 \<and> \<not> maximized w")
    case True
    with eq show ?thesis by simp
  next
    case False
    with eq have "w' = w" by simp
    with False hit d0(2) show ?thesis by simp
  qed
qed

subsection \<open>The position bounds in the states the shell reaches\<close>

lemma resizeOne_position:
  "0 \<le> x w \<and> 40 \<le> y w \<Longrightarrow> 0 \<le> x (resizeOne vp rw e w) \<and> 40 \<le> y (resizeOne vp rw e w)"
  by (simp add: resizeOne_def Let_def split: prod.splits)

lemma snapTarget_position:
  "usableViewport vp \<Longrightarrow> snapTarget vp zone = (nx, ny, nw, nh, st) \<Longrightarrow> 0 \<le> nx \<and> 40 \<le> ny"
  by (cases zone) (auto simp add: snapTarget_def usableViewport_def Let_def)

text \<open>Every handler establishes or keeps \<open>x \<ge> 0\<close> and \<open>y \<ge> 40\<close> for every window.\<close>

lemma reachable_position_bounds:
  "reachable s \<Longrightarrow> \<forall>w \<in> set (windows s). 0 \<le> x w \<and> 40 \<le> y w"
proof (induction rule: reachable.induct)
  case first_render
  show ?case by (simp add: initialDesktop_def)
next
  case (dock_drag_start s)
  then show ?case by (simp add: dockDragStart_def)
next
  case (dock_drag_end s vp point)
  then show ?case by (simp add: handleDockDrag_def Let_def)
next
  case (open_app s r1 r2 now app)
  then show ?case
    by (auto simp add: openApp_def Let_def split: option.splits)
next
  case (close_window s wid)
  then show ?case by (simp add: closeWindow_def Let_def)
next
  case (minimize_window s wid)
  then show ?case by (auto simp add: minimizeWindow_def)
next
  case (maximize_window s vp wid)
  then show ?case by (auto simp add: maximizeWindow_def)
next
  case (dock_window_click s window)
  then show ?case by (auto simp add: dockWindowClick_def Let_def)
next
  case (launcher_open s)
  then show ?case by (simp add: launcherOpen_def)
next
  case (launcher_dismiss s)
  then show ?case by (simp add: launcherDismiss_def)
next
  case (resize_start s e wid hdl)
  then show ?case by (simp add: startWindowResize_def split: option.splits)
next
  case (listener_move snap s vp e)
  then show ?case
    by (auto simp add: handleMouseMove_def handleWindowResize_def Let_def resizeOne_position
        split: option.splits)
next
  case (listener_up s)
  then show ?case by (simp add: handleMouseUp_def)
next
  case (window_mouse_down s inWindowControls inResizeHandle e wid)
  then show ?case by (simp add: handleWindowMouseDown_def)
next
  case (window_mouse_move s vp e)
  from window_mouse_move(2) show ?case by (rule handleWindowMouseMove_position_invariant)
next
  case (window_mouse_up s vp e)
  then show ?case by (simp add: handleWindowMouseUp_def Let_def)
next
  case (snap_zone_click snap s vp wid zone)
  obtain nx ny nw nh st where t: "snapTarget vp zone = (nx, ny, nw, nh, st)"
    by (cases "snapTarget vp zone") auto
  from snapTarget_position[OF snap_zone_click(3) t] have "0 \<le> nx \<and> 40 \<le> ny" .
  with snap_zone_click t show ?case
    by (auto simp add: snapWindow_def)
qed

text \<open>
  Claim C1. From every state the shell reaches, after every sequence of drag moves every window
  has \<open>x \<ge> 0\<close> and \<open>y \<ge> 40\<close>. A move with no drag armed changes nothing. With a drag armed, a
  move keeps the list's length and re-arms the baseline at the pointer; the dragged window, the
  one with the id of the drag (which responds to the drag when it is not maximized), gets the
  pointer delta added to its position, with x clamped to at least 0 and y to at least 40, and
  its snap anchor cleared; every other window is unchanged. In any state, reachable or not,
  after at least one move the dragged window that responds has \<open>x \<ge> 0\<close> and \<open>y \<ge> 40\<close>.
\<close>

theorem drag_moves_keep_position_bounds:
  "(reachable s \<longrightarrow>
      (\<forall>es. \<forall>w \<in> set (windows (dragMoves vp es s)). 0 \<le> x w \<and> 40 \<le> y w))
   \<and> (case dragRef s of
         None \<Rightarrow> handleWindowMouseMove vp e s = s
       | Some d \<Rightarrow>
           (let s' = handleWindowMouseMove vp e s
            in length (windows s') = length (windows s)
               \<and> dragRef s' = Some (d\<lparr>drag_startX := clientX e, drag_startY := clientY e\<rparr>)
               \<and> (\<forall>i < length (windows s).
                     let w = windows s ! i; w' = windows s' ! i
                     in if win_id w = drag_windowId d \<and> \<not> maximized w
                        then w' = w\<lparr>x := max 0 (x w + (clientX e - drag_startX d)),
                                    y := max 40 (y w + (clientY e - drag_startY d)),
                                    snapped := None\<rparr>
                             \<and> 0 \<le> x w' \<and> 40 \<le> y w'
                        else w' = w)))
   \<and> (\<forall>d es. dragRef s = Some d \<and> es \<noteq> [] \<longrightarrow>
         (\<forall>w' \<in> set (windows (dragMoves vp es s)).
            win_id w' = drag_windowId d \<and> \<not> maximized w' \<longrightarrow> 0 \<le> x w' \<and> 40 \<le> y w'))"
proof -
  have inv: "reachable s \<longrightarrow>
      (\<forall>es. \<forall>w \<in> set (windows (dragMoves vp es s)). 0 \<le> x w \<and> 40 \<le> y w)"
    using dragMoves_position_invariant[OF reachable_position_bounds] by blast
  have step: "case dragRef s of
         None \<Rightarrow> handleWindowMouseMove vp e s = s
       | Some d \<Rightarrow>
           (let s' = handleWindowMouseMove vp e s
            in length (windows s') = length (windows s)
               \<and> dragRef s' = Some (d\<lparr>drag_startX := clientX e, drag_startY := clientY e\<rparr>)
               \<and> (\<forall>i < length (windows s).
                     let w = windows s ! i; w' = windows s' ! i
                     in if win_id w = drag_windowId d \<and> \<not> maximized w
                        then w' = w\<lparr>x := max 0 (x w + (clientX e - drag_startX d)),
                                    y := max 40 (y w + (clientY e - drag_startY d)),
                                    snapped := None\<rparr>
                             \<and> 0 \<le> x w' \<and> 40 \<le> y w'
                        else w' = w))"
  proof (cases "dragRef s")
    case None
    then show ?thesis by (simp add: handleWindowMouseMove_idle)
  next
    case (Some d)
    then show ?thesis
      by (simp add: Let_def handleWindowMouseMove_windows handleWindowMouseMove_dragRef)
  qed
  have seq: "\<forall>d es. dragRef s = Some d \<and> es \<noteq> [] \<longrightarrow>
         (\<forall>w' \<in> set (windows (dragMoves vp es s)).
            win_id w' = drag_windowId d \<and> \<not> maximized w' \<longrightarrow> 0 \<le> x w' \<and> 40 \<le> y w')"
    using dragMoves_dragged_clamped by blast
  from inv step seq show ?thesis by blast
qed

text \<open>
  An instance: a window is opened at \<open>(100, 200)\<close> and grabbed at \<open>(150, 210)\<close>, a state the
  shell reaches; the pointer moves to \<open>(30, 20)\<close> and on to \<open>(60, 200)\<close>. The first move would
  bring the window to \<open>(-20, 10)\<close> and is clamped to \<open>(0, 40)\<close>; the second adds \<open>(30, 180)\<close>.
\<close>

theorem drag_moves_keep_position_bounds_witness:
  "(let s1 = openApp 1700000000000 0 (1/2) (hd desktopApps) initialDesktop;
        wid = win_id (hd (windows s1));
        s = handleWindowMouseDown False False \<lparr>clientX = 150, clientY = 210\<rparr> wid s1;
        e1 = \<lparr>clientX = 30, clientY = 20\<rparr>; e2 = \<lparr>clientX = 60, clientY = 200\<rparr>;
        s2 = dragMoves exampleViewport [e1, e2] s
    in reachable s
       \<and> map x (windows s) = [100] \<and> map y (windows s) = [200]
       \<and> map x (windows (handleWindowMouseMove exampleViewport e1 s)) = [0]
       \<and> map y (windows (handleWindowMouseMove exampleViewport e1 s)) = [40]
       \<and> map x (windows s2) = [30] \<and> map y (windows s2) = [220])"
proof -
  let ?s1 = "openApp 1700000000000 0 (1/2) (hd desktopApps) initialDesktop"
  let ?s = "handleWindowMouseDown False False \<lparr>clientX = 150, clientY = 210\<rparr>
              (win_id (hd (windows ?s1))) ?s1"
  have r1: "reachable ?s1"
    by (rule reachable.open_app[OF reachable.first_render]) simp_all
  have r: "reachable ?s"
    by (rule reachable.window_mouse_down[OF r1])
  from drag_moves_keep_position_bounds[of ?s exampleViewport "\<lparr>clientX = 30, clientY = 20\<rparr>"] r
  show ?thesis
    by (simp add: Let_def handleWindowMouseDown_def handleWindowMouseMove_def dragMoves_def
        openApp_def desktopApps_def exampleViewport_def initialDesktop_def)
qed

subsection \<open>Pointer down and pointer up\<close>

lemma handleWindowMouseDown_windows:
  "windows (handleWindowMouseDown c r e wid s) = windows s"
  by (simp add: handleWindowMouseDown_def)

text \<open>
  The list committed by \<^verbatim>\<open>handleWindowMouseUp\<close> is the list of its render with the resizing
  flags cleared, whatever \<^verbatim>\<open>snapWindow\<close> queued before: a release changes no geometry.
\<close>

lemma handleWindowMouseUp_windows:
  "windows (handleWindowMouseUp vp e s) = map (\<lambda>w. w\<lparr>isResizing := False\<rparr>) (windows s)"
  by (simp add: handleWindowMouseUp_def Let_def)

text \<open>What \<^verbatim>\<open>snapWindow\<close> queues for the top-left zone, were it committed.\<close>

lemma snapWindow_top_left:
  "windows (snapWindow vp wid ZoneTopLeft snap pending) =
     map (\<lambda>w. if win_id w = wid
               then w\<lparr>x := 0, y := 40, width := innerWidth vp / 2,
                      height := (innerHeight vp - 40) / 2,
                      maximized := False, snapped := Some SnappedTopLeft\<rparr>
               else w) (windows snap)"
  by (simp add: snapWindow_def snapTarget_def Let_def)

text \<open>
  Claim C7. A window whose maximized flag is set keeps its x, y, width and height, and the
  flag, through a whole drag gesture: a pointer down on any window, any sequence of pointer
  moves, and a pointer up, at any positions. Through the pointer down and the moves the window
  is unchanged altogether.
\<close>

theorem maximized_window_ignores_drag:
  assumes "i < length (windows s)" and "maximized (windows s ! i)"
  shows "let t = dragMoves vp moves (handleWindowMouseDown c r down wid s);
             s' = dragGesture vp c r down wid moves up s;
             w = windows s ! i; w' = windows s' ! i
         in length (windows t) = length (windows s) \<and> windows t ! i = w
            \<and> length (windows s') = length (windows s)
            \<and> x w' = x w \<and> y w' = y w \<and> width w' = width w \<and> height w' = height w
            \<and> maximized w'"
proof -
  let ?s1 = "handleWindowMouseDown c r down wid s"
  let ?t = "dragMoves vp moves ?s1"
  have i1: "i < length (windows ?s1)" "maximized (windows ?s1 ! i)"
    using assms by (simp_all add: handleWindowMouseDown_windows)
  have lt: "length (windows ?t) = length (windows s)"
    by (simp add: dragMoves_length handleWindowMouseDown_windows)
  have t: "windows ?t ! i = windows s ! i"
    using dragMoves_maximized_fixed[OF i1, of vp moves]
    by (simp add: handleWindowMouseDown_windows)
  have up: "windows (dragGesture vp c r down wid moves up s)
              = map (\<lambda>w. w\<lparr>isResizing := False\<rparr>) (windows ?t)"
    by (simp add: dragGesture_def handleWindowMouseUp_windows)
  have w': "windows (dragGesture vp c r down wid moves up s) ! i
              = (windows s ! i)\<lparr>isResizing := False\<rparr>"
    using assms(1) lt t by (simp add: up)
  show ?thesis
    using lt t w' assms(2) by (simp add: Let_def up)
qed

text \<open>
  An instance: the maximized second window of the example desktop is grabbed and the pointer
  is taken into the left edge band and released there.
\<close>

theorem maximized_window_ignores_drag_witness:
  "(let s' = dragGesture exampleViewport False False \<lparr>clientX = 900, clientY = 60\<rparr> ''window-2''
               [\<lparr>clientX = 500, clientY = 60\<rparr>, \<lparr>clientX = 20, clientY = 300\<rparr>]
               \<lparr>clientX = 20, clientY = 300\<rparr> exampleDesktop
    in 1 < length (windows exampleDesktop) \<and> maximized (windows exampleDesktop ! 1)
       \<and> x (windows s' ! 1) = 0 \<and> y (windows s' ! 1) = 40
       \<and> width (windows s' ! 1) = 1920 \<and> height (windows s' ! 1) = 1040)"
proof -
  have h1: "1 < length (windows exampleDesktop)"
    by (simp add: exampleDesktop_def)
  have h2: "maximized (windows exampleDesktop ! 1)"
    by (simp add: exampleDesktop_def exampleWindow_def)
  have g: "x (windows exampleDesktop ! 1) = 0 \<and> y (windows exampleDesktop ! 1) = 40
           \<and> width (windows exampleDesktop ! 1) = 1920 \<and> height (windows exampleDesktop ! 1) = 1040"
    by (simp add: exampleDesktop_def exampleWindow_def)
  from maximized_window_ignores_drag[OF h1 h2, where vp = exampleViewport and c = False
      and r = False and down = "\<lparr>clientX = 900, clientY = 60\<rparr>" and wid = "''window-2''"
      and moves = "[\<lparr>clientX = 500, clientY = 60\<rparr>, \<lparr>clientX = 20, clientY = 300\<rparr>]"
      and up = "\<lparr>clientX = 20, clientY = 300\<rparr>"] h1 h2 g
  show ?thesis by (simp add: Let_def)
qed

text \<open>
  Claim C5 at its failing input, on a 1920 by 1080 viewport. A window is opened at
  \<open>(100, 100)\<close>, grabbed at \<open>(150, 110)\<close> and dragged to \<open>(30, 20)\<close>: the snap zones are shown.
  The pointer is released there, within 50 pixels of the top edge and in the left half.
  \<^verbatim>\<open>handleWindowMouseUp\<close> selects the top-left zone, whose target is \<open>(0, 40, 960, 520)\<close>, but the
  window committed has no snap anchor and its dragged geometry, \<open>(0, 40, 900, 700)\<close>.
\<close>

theorem release_in_top_left_band_does_not_snap:
  "(let vp = \<lparr>innerWidth = 1920, innerHeight = 1080\<rparr>;
        s1 = openApp 1700000000000 0 0 (hd desktopApps) initialDesktop;
        wid = win_id (hd (windows s1));
        s2 = handleWindowMouseDown False False \<lparr>clientX = 150, clientY = 110\<rparr> wid s1;
        s3 = handleWindowMouseMove vp \<lparr>clientX = 30, clientY = 20\<rparr> s2;
        up = \<lparr>clientX = 30, clientY = 20\<rparr>;
        s4 = handleWindowMouseUp vp up s3
    in showSnapZones s3 = True \<and> dragRef s3 \<noteq> None
       \<and> releaseZone vp up = Some ZoneTopLeft
       \<and> snapTarget vp ZoneTopLeft = (0, 40, 960, 520, Some SnappedTopLeft)
       \<and> map snapped (windows s4) = [None]
       \<and> map x (windows s4) = [0] \<and> map y (windows s4) = [40]
       \<and> map width (windows s4) = [900] \<and> map height (windows s4) = [700])"
  by (simp add: Let_def openApp_def desktopApps_def initialDesktop_def
      handleWindowMouseDown_def handleWindowMouseMove_def handleWindowMouseUp_def
      releaseZone_def snapTarget_def snapWindow_def)

section \<open>Properties of resizing\<close>

subsection \<open>One window, one pointer move\<close>

lemma resizeOne_other: "win_id w \<noteq> windowId rw \<Longrightarrow> resizeOne vp rw e w = w"
  by (simp add: resizeOne_def)

text \<open>A size at or above the floor stays there, whatever the handle.\<close>

lemma resizeOne_size_floor:
  assumes "300 \<le> width w" "200 \<le> height w"
  shows "300 \<le> width (resizeOne vp rw e w) \<and> 200 \<le> height (resizeOne vp rw e w)"
  using assms by (simp add: resizeOne_def resizeSwitch_def Let_def)

text \<open>The six handles that compute a width floor it at 300, the six that compute a height
  floor it at 200; the edge handles leave the other dimension as it was.\<close>

lemma resizeOne_width_floor:
  assumes "win_id w = windowId rw"
    and "handle rw \<in> {''right'', ''left'', ''bottom-right'', ''bottom-left'', ''top-right'', ''top-left''}"
  shows "300 \<le> width (resizeOne vp rw e w)"
  using assms by (auto simp add: resizeOne_def resizeSwitch_def Let_def)

lemma resizeOne_height_floor:
  assumes "win_id w = windowId rw"
    and "handle rw \<in> {''bottom'', ''top'', ''bottom-right'', ''bottom-left'', ''top-right'', ''top-left''}"
  shows "200 \<le> height (resizeOne vp rw e w)"
  using assms by (auto simp add: resizeOne_def resizeSwitch_def Let_def)

lemma resizeOne_edge_keeps_height:
  assumes "handle rw \<in> {''right'', ''left''}"
  shows "height (resizeOne vp rw e w) = height w"
  using assms by (auto simp add: resizeOne_def resizeSwitch_def Let_def)

lemma resizeOne_edge_keeps_width:
  assumes "handle rw \<in> {''bottom'', ''top''}"
  shows "width (resizeOne vp rw e w) = width w"
  using assms by (auto simp add: resizeOne_def resizeSwitch_def Let_def)

text \<open>
  The final clamp. The origin of the resized window is always inside the viewport and below the
  top bar; its far edges are inside when the new size fits, and only then.
\<close>

lemma resizeOne_bounds:
  assumes "win_id w = windowId rw"
  shows "0 \<le> x (resizeOne vp rw e w) \<and> 40 \<le> y (resizeOne vp rw e w)
         \<and> (x (resizeOne vp rw e w) + width (resizeOne vp rw e w) \<le> innerWidth vp
              \<longleftrightarrow> width (resizeOne vp rw e w) \<le> innerWidth vp)
         \<and> (y (resizeOne vp rw e w) + height (resizeOne vp rw e w) \<le> innerHeight vp
              \<longleftrightarrow> height (resizeOne vp rw e w) \<le> innerHeight vp - 40)"
  using assms by (auto simp add: resizeOne_def Let_def split: prod.splits)

subsection \<open>The gesture\<close>

lemma handleMouseMove_windows:
  "windows (handleMouseMove vp e snap pending) =
     (case resizingWindow snap of
        None \<Rightarrow> windows pending
      | Some rw \<Rightarrow> map (resizeOne vp rw e) (windows snap))"
  by (simp add: handleMouseMove_def handleWindowResize_def Let_def split: option.splits)

lemma resizeMoves_Nil: "resizeMoves vp snap [] s = s"
  by (simp add: resizeMoves_def)

lemma resizeMoves_snoc:
  "resizeMoves vp snap (es @ [e]) s = handleMouseMove vp e snap (resizeMoves vp snap es s)"
  by (simp add: resizeMoves_def)

lemma resizeMoves_idle:
  "resizingWindow snap = None \<Longrightarrow> windows (resizeMoves vp snap es s) = windows s"
  by (induction es rule: rev_induct)
     (simp_all add: resizeMoves_Nil resizeMoves_snoc handleMouseMove_windows)

lemma resizeMoves_windows:
  "resizingWindow snap = Some rw \<Longrightarrow> es \<noteq> [] \<Longrightarrow>
   windows (resizeMoves vp snap es s) = map (resizeOne vp rw (last es)) (windows snap)"
  by (cases es rule: rev_cases) (simp_all add: resizeMoves_snoc handleMouseMove_windows)

lemma startWindowResize_windows: "windows (startWindowResize e wid hdl s) = windows s"
  by (simp add: startWindowResize_def split: option.splits)

text \<open>The resize is computed from the snapshot taken at its start: after the moves the list is
  that of the start with the last move applied.\<close>

lemma resizeGesture_windows:
  "windows (resizeGesture vp down wid hdl moves s) =
     (case resizingWindow (startWindowResize down wid hdl s) of
        None \<Rightarrow> windows s
      | Some rw \<Rightarrow> if moves = [] then windows s
                   else map (resizeOne vp rw (last moves)) (windows s))"
  by (simp add: resizeGesture_def Let_def resizeMoves_idle resizeMoves_windows resizeMoves_Nil
      startWindowResize_windows split: option.splits)

lemma resizeGesture_size_floor:
  "length (windows (resizeGesture vp down wid hdl moves s)) = length (windows s)
   \<and> (\<forall>i < length (windows s).
         300 \<le> width (windows s ! i) \<and> 200 \<le> height (windows s ! i) \<longrightarrow>
         300 \<le> width (windows (resizeGesture vp down wid hdl moves s) ! i)
         \<and> 200 \<le> height (windows (resizeGesture vp down wid hdl moves s) ! i))"
  by (simp add: resizeGesture_windows resizeOne_size_floor split: option.splits)

text \<open>
  Claim C2, as amended. Through a resize gesture with any handle and any sequence of pointer
  moves, a window whose width is at least 300 and whose height is at least 200 when the gesture
  starts has such a size after each move. Each handle floors the dimensions it computes: right,
  left and the four corners the width at 300, bottom, top and the four corners the height at
  200; the right and left handles leave the height as it was, the bottom and top handles the
  width.
\<close>

theorem resize_keeps_size_floor:
  "(let s' = resizeGesture vp down wid hdl moves s
    in length (windows s') = length (windows s)
       \<and> (\<forall>i < length (windows s).
             300 \<le> width (windows s ! i) \<and> 200 \<le> height (windows s ! i) \<longrightarrow>
             300 \<le> width (windows s' ! i) \<and> 200 \<le> height (windows s' ! i)))
   \<and> (win_id w = windowId rw
        \<and> handle rw \<in> {''right'', ''left'', ''bottom-right'', ''bottom-left'', ''top-right'', ''top-left''}
        \<longrightarrow> 300 \<le> width (resizeOne vp rw e w))
   \<and> (win_id w = windowId rw
        \<and> handle rw \<in> {''bottom'', ''top'', ''bottom-right'', ''bottom-left'', ''top-right'', ''top-left''}
        \<longrightarrow> 200 \<le> height (resizeOne vp rw e w))
   \<and> (handle rw \<in> {''right'', ''left''} \<longrightarrow> height (resizeOne vp rw e w) = height w)
   \<and> (handle rw \<in> {''bottom'', ''top''} \<longrightarrow> width (resizeOne vp rw e w) = width w)"
  unfolding Let_def
  using resizeGesture_size_floor[of vp down wid hdl moves s]
    resizeOne_width_floor[of w rw vp e] resizeOne_height_floor[of w rw vp e]
    resizeOne_edge_keeps_height[of rw vp e w] resizeOne_edge_keeps_width[of rw vp e w]
  by blast

text \<open>
  An instance: the first window of the example desktop, 900 by 700 at \<open>(100, 100)\<close>, is taken
  by its top-left handle at \<open>(100, 100)\<close> and the pointer moves to \<open>(900, 800)\<close>: the size stops
  at the floor, 300 by 200, and the other window keeps its size.
\<close>

theorem resize_keeps_size_floor_witness:
  "(let down = \<lparr>clientX = 100, clientY = 100\<rparr>;
        s' = resizeGesture exampleViewport down ''window-1'' ''top-left''
               [\<lparr>clientX = 500, clientY = 300\<rparr>, \<lparr>clientX = 900, clientY = 800\<rparr>] exampleDesktop
    in 300 \<le> width (windows exampleDesktop ! 0) \<and> 200 \<le> height (windows exampleDesktop ! 0)
       \<and> width (windows s' ! 0) = 300 \<and> height (windows s' ! 0) = 200
       \<and> x (windows s' ! 0) = 700 \<and> y (windows s' ! 0) = 600
       \<and> width (windows s' ! 1) = 1920 \<and> height (windows s' ! 1) = 1040)"
  using resize_keeps_size_floor[of exampleViewport "\<lparr>clientX = 100, clientY = 100\<rparr>"
      "''window-1''" "''top-left''"
      "[\<lparr>clientX = 500, clientY = 300\<rparr>, \<lparr>clientX = 900, clientY = 800\<rparr>]" exampleDesktop
      "windows exampleDesktop ! 0"
      "\<lparr>windowId = ''window-1'', handle = ''top-left'', startX = 100, startY = 100,
        startWidth = 900, startHeight = 700, startWindowX = 100, startWindowY = 100\<rparr>"
      "\<lparr>clientX = 900, clientY = 800\<rparr>"]
  by (simp add: Let_def resizeGesture_windows startWindowResize_def resizeOne_def
      resizeSwitch_def exampleDesktop_def exampleWindow_def exampleViewport_def
      initialDesktop_def)

text \<open>
  Claim C2 as stated fails where the window starts below the floor in the dimension that the
  handle does not compute. On a viewport 1280 wide and 230 high a window is opened, maximized
  (its height becomes \<open>230 - 40 = 190\<close>) and restored, which keeps that geometry; it is then
  resized by its right handle. The width is recomputed, the height is still 190.
\<close>

theorem resize_below_floor_counterexample:
  "(let vp = \<lparr>innerWidth = 1280, innerHeight = 230\<rparr>;
        s1 = openApp 1700000000000 0 0 (hd desktopApps) initialDesktop;
        wid = win_id (hd (windows s1));
        s2 = maximizeWindow vp wid s1;
        s3 = maximizeWindow vp wid s2;
        s4 = resizeGesture vp \<lparr>clientX = 1279, clientY = 100\<rparr> wid ''right''
               [\<lparr>clientX = 1270, clientY = 100\<rparr>] s3
    in map maximized (windows s3) = [False]
       \<and> map width (windows s3) = [1280] \<and> map height (windows s3) = [190]
       \<and> map width (windows s4) = [1271] \<and> map height (windows s4) = [190])"
  by (simp add: Let_def openApp_def desktopApps_def initialDesktop_def maximizeWindow_def
      resizeGesture_def startWindowResize_def resizeMoves_def handleMouseMove_def
      handleWindowResize_def resizeOne_def resizeSwitch_def)

text \<open>
  Claim C8 at its failing input. On a viewport 1024 wide and 600 high a window is opened with
  the default size, 900 by 700, at \<open>(100, 100)\<close>, and resized by its right handle from
  \<open>(999, 400)\<close> to \<open>(1004, 400)\<close>. The clamp moves the window up to the top bar, \<open>y = 40\<close>, and
  its lower edge is at \<open>740\<close>, below the viewport's \<open>600\<close>.
\<close>

theorem resize_leaves_window_outside_viewport:
  "(let vp = \<lparr>innerWidth = 1024, innerHeight = 600\<rparr>;
        s1 = openApp 1700000000000 0 0 (hd desktopApps) initialDesktop;
        wid = win_id (hd (windows s1));
        s2 = resizeGesture vp \<lparr>clientX = 999, clientY = 400\<rparr> wid ''right''
               [\<lparr>clientX = 1004, clientY = 400\<rparr>] s1
    in map x (windows s1) = [100] \<and> map y (windows s1) = [100]
       \<and> map width (windows s1) = [900] \<and> map height (windows s1) = [700]
       \<and> map x (windows s2) = [100] \<and> map y (windows s2) = [40]
       \<and> map width (windows s2) = [905] \<and> map height (windows s2) = [700]
       \<and> innerHeight vp < y (hd (windows s2)) + height (hd (windows s2)))"
  by (simp add: Let_def openApp_def desktopApps_def initialDesktop_def
      resizeGesture_def startWindowResize_def resizeMoves_def handleMouseMove_def
      handleWindowResize_def resizeOne_def resizeSwitch_def)

end
